theory Spec2Isabelle
  imports Main "HOL-Library.Word"
begin

section \<open>Qt value types used by the scheduler\<close>

text \<open>
  \<open>QString\<close> is a sequence of code units that is compared by content (a null and an
  empty \<open>QString\<close> compare equal), so it is a \<open>string\<close> here.  The C++ \<open>int\<close> is a
  32-bit two's complement word; \<open>\<le>s\<close> is its signed comparison.
\<close>

type_synonym QString = string

type_synonym cint = "32 word"

text \<open>
  A \<open>QTime\<close> holds one field, the number of milliseconds since midnight, with \<open>-1\<close> for
  the null time; its comparison operators compare that field.  The model is the field.
\<close>

type_synonym QTime = int

definition NullTime :: QTime where
  "NullTime = -1"

definition MSECS_PER_DAY :: int where
  "MSECS_PER_DAY = 86400000"

definition QTime_isValid :: "QTime \<Rightarrow> bool" where
  "QTime_isValid t = (t > -1 \<and> t < MSECS_PER_DAY)"

text \<open>\<open>QTime(h, m, s = 0, ms = 0)\<close>: the null time when a component is out of range.\<close>

definition QTime_hms :: "int \<Rightarrow> int \<Rightarrow> int \<Rightarrow> int \<Rightarrow> QTime" where
  "QTime_hms h m s ms =
     (if 0 \<le> h \<and> h < 24 \<and> 0 \<le> m \<and> m < 60 \<and> 0 \<le> s \<and> s < 60 \<and> 0 \<le> ms \<and> ms < 1000
      then (h * 3600 + m * 60 + s) * 1000 + ms
      else NullTime)"

definition QTime_hour :: "QTime \<Rightarrow> int" where
  "QTime_hour t = (if QTime_isValid t then t div 3600000 else -1)"

definition QTime_minute :: "QTime \<Rightarrow> int" where
  "QTime_minute t = (if QTime_isValid t then (t mod 3600000) div 60000 else -1)"

definition QTime_second :: "QTime \<Rightarrow> int" where
  "QTime_second t = (if QTime_isValid t then (t div 1000) mod 60 else -1)"

definition QTime_msec :: "QTime \<Rightarrow> int" where
  "QTime_msec t = (if QTime_isValid t then t mod 1000 else -1)"

section \<open>Scheduler::Days\<close>

text \<open>
  Modelled from the spec: the declaration of \<open>enum class Scheduler::Days\<close> lives in
  \<open>base/preferences.h\<close>, which is not among the sources.  The spec gives the closed set
  EveryDay, Weekday, Weekend, Monday .. Sunday, stored as an integer code, with the
  single days consecutive (\<open>dayIndex = selector - (Monday_index - 1)\<close>);
  \<open>scheduleentrydialog.cpp\<close> casts the index of a combo box to the enumeration, so the
  codes count from 0 in that order.  A scoped enumeration over \<open>int\<close> can hold any
  \<open>int\<close> (\<open>ScheduleEntry::fromJsonObject\<close> casts whatever the JSON holds), so the type is
  the underlying integer and the casts between the two are the identity.
\<close>

type_synonym Days = cint

definition EveryDay :: Days where "EveryDay = 0"
definition Weekday :: Days where "Weekday = 1"
definition Weekend :: Days where "Weekend = 2"
definition Monday :: Days where "Monday = 3"
definition Tuesday :: Days where "Tuesday = 4"
definition Wednesday :: Days where "Wednesday = 5"
definition Thursday :: Days where "Thursday = 6"
definition Friday :: Days where "Friday = 7"
definition Saturday :: Days where "Saturday = 8"
definition Sunday :: Days where "Sunday = 9"

text \<open>The enumerators, in declaration order.\<close>

definition recognizedDays :: "Days list" where
  "recognizedDays =
     [EveryDay, Weekday, Weekend, Monday, Tuesday, Wednesday, Thursday, Friday, Saturday, Sunday]"

section \<open>speedprofile.h: the data model\<close>

record SpeedProfile =
  name :: QString
  downloadLimit :: cint
  uploadLimit :: cint

record ScheduleEntry =
  startTime :: QTime
  endTime :: QTime
  days :: Days
  profileName :: QString

text \<open>\<open>operator==\<close> of the two structs, as written.\<close>

definition SpeedProfile_eq :: "SpeedProfile \<Rightarrow> SpeedProfile \<Rightarrow> bool" where
  "SpeedProfile_eq a other =
     ((name a = name other) \<and> (downloadLimit a = downloadLimit other)
      \<and> (uploadLimit a = uploadLimit other))"

definition ScheduleEntry_eq :: "ScheduleEntry \<Rightarrow> ScheduleEntry \<Rightarrow> bool" where
  "ScheduleEntry_eq a other =
     ((startTime a = startTime other) \<and> (endTime a = endTime other)
      \<and> (days a = days other) \<and> (profileName a = profileName other))"

definition SpeedProfile_isValid :: "SpeedProfile \<Rightarrow> bool" where
  "SpeedProfile_isValid p = (name p \<noteq> [] \<and> (-1 \<le>s downloadLimit p) \<and> (-1 \<le>s uploadLimit p))"

definition ScheduleEntry_isValid :: "ScheduleEntry \<Rightarrow> bool" where
  "ScheduleEntry_isValid e =
     (QTime_isValid (startTime e) \<and> QTime_isValid (endTime e) \<and> profileName e \<noteq> [])"

section \<open>The collaborators: preferences and the wall clock\<close>

text \<open>
  The scheduler reads the \<open>Preferences\<close> singleton and the system clock.  One reading of
  the preferences is a record of the five getters it calls; one reading of the clock is
  what \<open>QTime::currentTime()\<close> and \<open>QDate::currentDate().dayOfWeek()\<close> return.
\<close>

record Preferences =
  getSchedulerStartTime :: QTime
  getSchedulerEndTime :: QTime
  getSchedulerDays :: Days
  getScheduleEntries :: "ScheduleEntry list"
  getDefaultSpeedProfile :: QString

record Clock =
  currentTime :: QTime
  dayOfWeek :: cint

section \<open>bandwidthscheduler.cpp\<close>

subsection \<open>isDayMatch\<close>

definition isDayMatch :: "Days \<Rightarrow> cint \<Rightarrow> bool" where
  "isDayMatch schedulerDays currentDay =
     (if schedulerDays = EveryDay then True
      else if schedulerDays = Weekday then (1 \<le>s currentDay \<and> currentDay \<le>s 5)
      else if schedulerDays = Weekend then (currentDay = 6 \<or> currentDay = 7)
      else if schedulerDays = Monday \<or> schedulerDays = Tuesday \<or> schedulerDays = Wednesday
           \<or> schedulerDays = Thursday \<or> schedulerDays = Friday \<or> schedulerDays = Saturday
           \<or> schedulerDays = Sunday
      then (let offset = Monday - 1;
                dayOfWeek = schedulerDays - offset
            in currentDay = dayOfWeek)
      else False)"

subsection \<open>getCurrentSpeedProfile\<close>

text \<open>
  The \<open>for\<close> loop over the entries: \<open>Some\<close> is the \<open>return entry.profileName\<close> inside the
  loop, \<open>None\<close> is the loop running to its end.
\<close>

fun getCurrentSpeedProfile_loop :: "ScheduleEntry list \<Rightarrow> QTime \<Rightarrow> cint \<Rightarrow> QString option" where
  "getCurrentSpeedProfile_loop [] now day = None"
| "getCurrentSpeedProfile_loop (entry # schedules) now day =
     (if \<not> isDayMatch (days entry) day then getCurrentSpeedProfile_loop schedules now day
      else
        let inTimeRange =
              (if startTime entry \<le> endTime entry
               then (now \<ge> startTime entry \<and> now \<le> endTime entry)
               else (now \<ge> startTime entry \<or> now \<le> endTime entry))
        in if inTimeRange then Some (profileName entry)
           else getCurrentSpeedProfile_loop schedules now day)"

definition getCurrentSpeedProfile :: "Preferences \<Rightarrow> Clock \<Rightarrow> QString" where
  "getCurrentSpeedProfile pref clk =
     (let schedules = getScheduleEntries pref;
          now = currentTime clk;
          day = dayOfWeek clk
      in case getCurrentSpeedProfile_loop schedules now day of
           Some profile \<Rightarrow> profile
         | None \<Rightarrow> getDefaultSpeedProfile pref)"

subsection \<open>isTimeForAlternative\<close>

text \<open>
  \<open>Q_UNREACHABLE()\<close> in the \<open>default\<close> branch of the \<open>switch\<close> is an assertion that
  aborts the process in a debug build and is undefined behaviour in a release build: the
  evaluator then has no result, which is the error value here.
\<close>

datatype error = Unreachable

definition isTimeForAlternative :: "Preferences \<Rightarrow> Clock \<Rightarrow> error + bool" where
  "isTimeForAlternative pref clk =
     (let start0 = getSchedulerStartTime pref;
          end0 = getSchedulerEndTime pref;
          now = currentTime clk;
          schedulerDays = getSchedulerDays pref;
          day = dayOfWeek clk;
          swapped = (start0 > end0);
          start = (if swapped then end0 else start0);
          end' = (if swapped then start0 else end0);
          alternative = (if swapped then True else False)
      in if (start \<le> now) \<and> (end' \<ge> now)
         then
           (if schedulerDays = EveryDay then Inr (\<not> alternative)
            else if schedulerDays = Monday \<or> schedulerDays = Tuesday
                 \<or> schedulerDays = Wednesday \<or> schedulerDays = Thursday
                 \<or> schedulerDays = Friday \<or> schedulerDays = Saturday
                 \<or> schedulerDays = Sunday
            then (let offset = Monday - 1;
                      dayOfWeek = schedulerDays - offset
                  in Inr (if day = dayOfWeek then \<not> alternative else alternative))
            else if schedulerDays = Weekday
            then Inr (if (1 \<le>s day) \<and> (day \<le>s 5) then \<not> alternative else alternative)
            else if schedulerDays = Weekend
            then Inr (if (day = 6) \<or> (day = 7) then \<not> alternative else alternative)
            else Inl Unreachable)
         else Inr alternative)"

subsection \<open>The scheduler object: start and onTimeout\<close>

text \<open>
  What the object does to the outside is a sequence of effects, oldest first: the two
  signals it emits and the call that arms \<open>m_timer\<close> (with its interval in milliseconds).
\<close>

datatype effect =
    bandwidthLimitRequested bool
  | speedProfileRequested QString
  | timerStart nat

record BandwidthScheduler =
  m_lastAlternative :: bool
  m_lastActiveProfile :: QString
  effects :: "effect list"

text \<open>
  Modelled from the spec: the class declaration (\<open>bandwidthscheduler.h\<close>) is not among the
  sources.  The spec speaks of a zero/empty previous value of the two cells, which is
  also what a default-constructed \<open>QString\<close> member is; a new object has done nothing.
\<close>

definition BandwidthScheduler_new :: BandwidthScheduler where
  "BandwidthScheduler_new =
     \<lparr>m_lastAlternative = False, m_lastActiveProfile = [], effects = []\<rparr>"

definition start :: "Preferences \<Rightarrow> Clock \<Rightarrow> BandwidthScheduler \<Rightarrow> error + BandwidthScheduler" where
  "start pref clk s =
     (case isTimeForAlternative pref clk of
        Inl e \<Rightarrow> Inl e
      | Inr alternative \<Rightarrow>
          Inr (s\<lparr>m_lastAlternative := alternative,
                 effects := effects s @ [bandwidthLimitRequested alternative, timerStart 30000]\<rparr>))"

text \<open>
  \<open>onTimeout\<close> reads the clock once in each of the two evaluators it calls, so a tick
  takes two readings: \<open>clkA\<close> for the legacy evaluator, \<open>clkP\<close> for the resolver.
\<close>

definition onTimeout ::
  "Preferences \<Rightarrow> Clock \<Rightarrow> Clock \<Rightarrow> BandwidthScheduler \<Rightarrow> error + BandwidthScheduler" where
  "onTimeout pref clkA clkP s =
     (case isTimeForAlternative pref clkA of
        Inl e \<Rightarrow> Inl e
      | Inr alternative \<Rightarrow>
          (let s1 = (if alternative \<noteq> m_lastAlternative s
                     then s\<lparr>m_lastAlternative := alternative,
                            effects := effects s @ [bandwidthLimitRequested alternative]\<rparr>
                     else s);
               currentProfile = getCurrentSpeedProfile pref clkP;
               s2 = (if currentProfile \<noteq> m_lastActiveProfile s1
                     then s1\<lparr>m_lastActiveProfile := currentProfile,
                             effects := effects s1 @ [speedProfileRequested currentProfile]\<rparr>
                     else s1)
           in Inr s2))"

text \<open>A run of ticks, each with its own reading of the preferences and of the clock.\<close>

fun onTimeouts ::
  "(Preferences \<times> Clock \<times> Clock) list \<Rightarrow> BandwidthScheduler \<Rightarrow> error + BandwidthScheduler" where
  "onTimeouts [] s = Inr s"
| "onTimeouts ((pref, clkA, clkP) # ticks) s =
     (case onTimeout pref clkA clkP s of
        Inl e \<Rightarrow> Inl e
      | Inr s' \<Rightarrow> onTimeouts ticks s')"

section \<open>speedprofile.h: JSON serialization\<close>

text \<open>
  The part of Qt's JSON values that the two structs use.  \<open>QJsonValue(int)\<close> stores the
  integer as a 64-bit integer; \<open>toInt(d)\<close> gives it back when it fits an \<open>int\<close> and \<open>d\<close>
  otherwise; \<open>toString()\<close> gives the string of a string value and the empty string
  otherwise; \<open>QJsonObject::value\<close> of a missing key is the undefined value.  Values that
  \<open>toJsonObject\<close> never builds (non-integral numbers, arrays, objects) are left out.
\<close>

datatype QJsonValue = Undefined | JNull | JBool bool | JInteger int | JString QString

type_synonym QJsonObject = "QString \<rightharpoonup> QJsonValue"

definition QJsonObject_value :: "QJsonObject \<Rightarrow> QString \<Rightarrow> QJsonValue" where
  "QJsonObject_value obj key = (case obj key of Some v \<Rightarrow> v | None \<Rightarrow> Undefined)"

fun QJsonValue_toString :: "QJsonValue \<Rightarrow> QString" where
  "QJsonValue_toString (JString s) = s"
| "QJsonValue_toString _ = []"

fun QJsonValue_toInt :: "QJsonValue \<Rightarrow> cint \<Rightarrow> cint" where
  "QJsonValue_toInt (JInteger n) defaultValue =
     (if - (2 ^ 31) \<le> n \<and> n < 2 ^ 31 then word_of_int n else defaultValue)"
| "QJsonValue_toInt _ defaultValue = defaultValue"

text \<open>
  \<open>QTime::toString\<close> and \<open>QTime::fromString\<close> for the one format the code uses,
  \<open>HH:mm\<close>: hour and minute with two decimal digits each, the empty string for an
  invalid time; parsing gives \<open>QTime(h, m)\<close> for two digits, a colon and two digits, and
  an invalid time for a text that is not of that form.
\<close>

definition digitChar :: "int \<Rightarrow> char" where
  "digitChar d = char_of (48 + d)"

definition digitValue :: "char \<Rightarrow> int option" where
  "digitValue c = (let n = of_char c :: int in if 48 \<le> n \<and> n \<le> 57 then Some (n - 48) else None)"

definition twoDigits :: "int \<Rightarrow> QString" where
  "twoDigits n = [digitChar (n div 10), digitChar (n mod 10)]"

definition QTime_toString_HHmm :: "QTime \<Rightarrow> QString" where
  "QTime_toString_HHmm t =
     (if QTime_isValid t then twoDigits (QTime_hour t) @ '':'' @ twoDigits (QTime_minute t)
      else [])"

fun QTime_fromString_HHmm :: "QString \<Rightarrow> QTime" where
  "QTime_fromString_HHmm [h1, h2, c, m1, m2] =
     (if c = CHR '':'' then
        (case (digitValue h1, digitValue h2, digitValue m1, digitValue m2) of
           (Some a, Some b, Some x, Some y) \<Rightarrow> QTime_hms (10 * a + b) (10 * x + y) 0 0
         | _ \<Rightarrow> NullTime)
      else NullTime)"
| "QTime_fromString_HHmm _ = NullTime"

definition SpeedProfile_toJsonObject :: "SpeedProfile \<Rightarrow> QJsonObject" where
  "SpeedProfile_toJsonObject p =
     Map.empty(''name'' \<mapsto> JString (name p),
               ''download'' \<mapsto> JInteger (sint (downloadLimit p)),
               ''upload'' \<mapsto> JInteger (sint (uploadLimit p)))"

definition SpeedProfile_fromJsonObject :: "QJsonObject \<Rightarrow> SpeedProfile" where
  "SpeedProfile_fromJsonObject obj =
     \<lparr>name = QJsonValue_toString (QJsonObject_value obj ''name''),
      downloadLimit = QJsonValue_toInt (QJsonObject_value obj ''download'') (-1),
      uploadLimit = QJsonValue_toInt (QJsonObject_value obj ''upload'') (-1)\<rparr>"

definition ScheduleEntry_toJsonObject :: "ScheduleEntry \<Rightarrow> QJsonObject" where
  "ScheduleEntry_toJsonObject e =
     Map.empty(''start'' \<mapsto> JString (QTime_toString_HHmm (startTime e)),
               ''end'' \<mapsto> JString (QTime_toString_HHmm (endTime e)),
               ''days'' \<mapsto> JInteger (sint (days e)),
               ''profile'' \<mapsto> JString (profileName e))"

definition ScheduleEntry_fromJsonObject :: "QJsonObject \<Rightarrow> ScheduleEntry" where
  "ScheduleEntry_fromJsonObject obj =
     \<lparr>startTime = QTime_fromString_HHmm (QJsonValue_toString (QJsonObject_value obj ''start'')),
      endTime = QTime_fromString_HHmm (QJsonValue_toString (QJsonObject_value obj ''end'')),
      days = QJsonValue_toInt (QJsonObject_value obj ''days'') 0,
      profileName = QJsonValue_toString (QJsonObject_value obj ''profile'')\<rparr>"

section \<open>The words of the specification\<close>

text \<open>
  The time-range test of the specification (section 4.2, step 3) and its notion of an
  entry that matches: the day test and the time-range test both hold.
\<close>

definition spec_inTimeRange :: "QTime \<Rightarrow> QTime \<Rightarrow> QTime \<Rightarrow> bool" where
  "spec_inTimeRange startT endT now =
     (if startT \<le> endT then startT \<le> now \<and> now \<le> endT else now \<ge> startT \<or> now \<le> endT)"

definition spec_entryMatches :: "ScheduleEntry \<Rightarrow> QTime \<Rightarrow> cint \<Rightarrow> bool" where
  "spec_entryMatches e now today =
     (isDayMatch (days e) today \<and> spec_inTimeRange (startTime e) (endTime e) now)"

text \<open>The last value emitted so far on each of the two signals, if any.\<close>

fun lastBandwidthLimitRequested :: "effect list \<Rightarrow> bool option" where
  "lastBandwidthLimitRequested [] = None"
| "lastBandwidthLimitRequested (e # es) =
     (case lastBandwidthLimitRequested es of
        Some b \<Rightarrow> Some b
      | None \<Rightarrow> (case e of bandwidthLimitRequested b \<Rightarrow> Some b | _ \<Rightarrow> None))"

fun lastSpeedProfileRequested :: "effect list \<Rightarrow> QString option" where
  "lastSpeedProfileRequested [] = None"
| "lastSpeedProfileRequested (e # es) =
     (case lastSpeedProfileRequested es of
        Some p \<Rightarrow> Some p
      | None \<Rightarrow> (case e of speedProfileRequested p \<Rightarrow> Some p | _ \<Rightarrow> None))"

section \<open>Helper facts\<close>

lemmas Days_defs =
  EveryDay_def Weekday_def Weekend_def Monday_def Tuesday_def Wednesday_def
  Thursday_def Friday_def Saturday_def Sunday_def

lemma sle_1_5:
  "(1 \<le>s (d::cint) \<and> d \<le>s 5) = (d = 1 \<or> d = 2 \<or> d = 3 \<or> d = 4 \<or> d = 5)"
proof
  assume "1 \<le>s d \<and> d \<le>s 5"
  then have "1 \<le> sint d" and "sint d \<le> 5"
    by (simp_all add: word_sle_eq)
  then have "sint d = 1 \<or> sint d = 2 \<or> sint d = 3 \<or> sint d = 4 \<or> sint d = 5"
    by arith
  moreover have "word_of_int (sint d) = d"
    by simp
  ultimately show "d = 1 \<or> d = 2 \<or> d = 3 \<or> d = 4 \<or> d = 5"
    by (metis word_of_int_1 word_of_int_numeral)
next
  assume "d = 1 \<or> d = 2 \<or> d = 3 \<or> d = 4 \<or> d = 5"
  then show "1 \<le>s d \<and> d \<le>s 5"
    by (auto simp: word_sle_eq)
qed

lemmas isDayMatch_eval = isDayMatch_def Days_defs word_sle_eq

text \<open>One step of the loop, in the words of the specification.\<close>

lemma loop_Cons:
  "getCurrentSpeedProfile_loop (e # es) now day =
     (if spec_entryMatches e now day then Some (profileName e)
      else getCurrentSpeedProfile_loop es now day)"
  by (simp add: spec_entryMatches_def spec_inTimeRange_def)

lemma loop_skips_prefix:
  "\<forall>x\<in>set pre. \<not> spec_entryMatches x now day \<Longrightarrow>
   getCurrentSpeedProfile_loop (pre @ post) now day = getCurrentSpeedProfile_loop post now day"
  by (induction pre) (simp_all add: loop_Cons del: getCurrentSpeedProfile_loop.simps)

section \<open>The day-selector matcher\<close>

text \<open>
  C4.  For every current day \<open>d\<close> (so for the ISO days 1 .. 7): \<open>EveryDay\<close> always
  matches; \<open>Weekday\<close> matches exactly the days 1 .. 5; \<open>Weekend\<close> exactly 6 and 7; a
  single named day exactly its ISO index (Monday 1, ..., Sunday 7); a selector code that
  is none of the ten enumerators never matches.
\<close>

theorem isDayMatch_table:
  "isDayMatch EveryDay d
   \<and> (isDayMatch Weekday d \<longleftrightarrow> d = 1 \<or> d = 2 \<or> d = 3 \<or> d = 4 \<or> d = 5)
   \<and> (isDayMatch Weekend d \<longleftrightarrow> d = 6 \<or> d = 7)
   \<and> (isDayMatch Monday d \<longleftrightarrow> d = 1)
   \<and> (isDayMatch Tuesday d \<longleftrightarrow> d = 2)
   \<and> (isDayMatch Wednesday d \<longleftrightarrow> d = 3)
   \<and> (isDayMatch Thursday d \<longleftrightarrow> d = 4)
   \<and> (isDayMatch Friday d \<longleftrightarrow> d = 5)
   \<and> (isDayMatch Saturday d \<longleftrightarrow> d = 6)
   \<and> (isDayMatch Sunday d \<longleftrightarrow> d = 7)
   \<and> (sel \<notin> set recognizedDays \<longrightarrow> \<not> isDayMatch sel d)"
  unfolding isDayMatch_def sle_1_5
  by (simp add: Days_defs recognizedDays_def)

text \<open>The table on a Saturday, with the unrecognized selector code 10.\<close>

theorem isDayMatch_table_witness:
  "isDayMatch EveryDay 6 \<and> \<not> isDayMatch Weekday 6 \<and> isDayMatch Weekend 6
   \<and> \<not> isDayMatch Monday 6 \<and> \<not> isDayMatch Friday 6 \<and> isDayMatch Saturday 6
   \<and> \<not> isDayMatch Sunday 6
   \<and> (10 :: Days) \<notin> set recognizedDays \<and> \<not> isDayMatch 10 6"
  using isDayMatch_table [of 6 10]
  by (simp add: Days_defs recognizedDays_def)

section \<open>The schedule resolver\<close>

text \<open>
  C1.  For an entry whose day selector matches the current day, the loop of the resolver
  returns the entry's profile name at that entry exactly when the time test holds, and
  goes on to the next entry otherwise: with \<open>startTime \<le> endTime\<close> the test is
  \<open>startTime \<le> now \<le> endTime\<close>, both bounds included; with \<open>startTime > endTime\<close> it is
  \<open>now \<ge> startTime\<close> or \<open>now \<le> endTime\<close>.
\<close>

theorem entry_time_window:
  assumes "isDayMatch (days entry) day"
  shows "(startTime entry \<le> endTime entry \<longrightarrow>
            getCurrentSpeedProfile_loop (entry # rest) now day =
              (if startTime entry \<le> now \<and> now \<le> endTime entry then Some (profileName entry)
               else getCurrentSpeedProfile_loop rest now day))
       \<and> (startTime entry > endTime entry \<longrightarrow>
            getCurrentSpeedProfile_loop (entry # rest) now day =
              (if now \<ge> startTime entry \<or> now \<le> endTime entry then Some (profileName entry)
               else getCurrentSpeedProfile_loop rest now day))"
  using assms by simp

text \<open>
  A window 06:00 to 16:00 on a Tuesday at both of its bounds and outside, and the window
  23:00 to 01:00 at 23:00, 00:00, 01:00 and outside at 12:00.
\<close>

theorem entry_time_window_witness:
  "isDayMatch Weekday 2
   \<and> getCurrentSpeedProfile_loop
       [\<lparr>startTime = QTime_hms 6 0 0 0, endTime = QTime_hms 16 0 0 0, days = Weekday,
         profileName = ''Work''\<rparr>] (QTime_hms 6 0 0 0) 2 = Some ''Work''
   \<and> getCurrentSpeedProfile_loop
       [\<lparr>startTime = QTime_hms 6 0 0 0, endTime = QTime_hms 16 0 0 0, days = Weekday,
         profileName = ''Work''\<rparr>] (QTime_hms 16 0 0 0) 2 = Some ''Work''
   \<and> getCurrentSpeedProfile_loop
       [\<lparr>startTime = QTime_hms 6 0 0 0, endTime = QTime_hms 16 0 0 0, days = Weekday,
         profileName = ''Work''\<rparr>] (QTime_hms 16 0 0 1) 2 = None
   \<and> getCurrentSpeedProfile_loop
       [\<lparr>startTime = QTime_hms 23 0 0 0, endTime = QTime_hms 1 0 0 0, days = Weekday,
         profileName = ''Night''\<rparr>] (QTime_hms 23 0 0 0) 2 = Some ''Night''
   \<and> getCurrentSpeedProfile_loop
       [\<lparr>startTime = QTime_hms 23 0 0 0, endTime = QTime_hms 1 0 0 0, days = Weekday,
         profileName = ''Night''\<rparr>] (QTime_hms 0 0 0 0) 2 = Some ''Night''
   \<and> getCurrentSpeedProfile_loop
       [\<lparr>startTime = QTime_hms 23 0 0 0, endTime = QTime_hms 1 0 0 0, days = Weekday,
         profileName = ''Night''\<rparr>] (QTime_hms 1 0 0 0) 2 = Some ''Night''
   \<and> getCurrentSpeedProfile_loop
       [\<lparr>startTime = QTime_hms 23 0 0 0, endTime = QTime_hms 1 0 0 0, days = Weekday,
         profileName = ''Night''\<rparr>] (QTime_hms 12 0 0 0) 2 = None"
proof -
  have d: "isDayMatch Weekday 2"
    by (simp add: isDayMatch_eval)
  note w = entry_time_window [of "\<lparr>startTime = QTime_hms 6 0 0 0, endTime = QTime_hms 16 0 0 0,
    days = Weekday, profileName = ''Work''\<rparr>" 2 "[]"]
  note n = entry_time_window [of "\<lparr>startTime = QTime_hms 23 0 0 0, endTime = QTime_hms 1 0 0 0,
    days = Weekday, profileName = ''Night''\<rparr>" 2 "[]"]
  show ?thesis
    using d w [of "QTime_hms 6 0 0 0"] w [of "QTime_hms 16 0 0 0"] w [of "QTime_hms 16 0 0 1"]
      n [of "QTime_hms 23 0 0 0"] n [of "QTime_hms 0 0 0 0"] n [of "QTime_hms 1 0 0 0"]
      n [of "QTime_hms 12 0 0 0"]
    by (simp add: QTime_hms_def)
qed

text \<open>
  C2.  The resolver returns the profile name of the earliest entry of the list that
  passes the day test and the time-range test, whatever the entries after it are (and
  so whether or not later entries match as well).
\<close>

theorem first_matching_entry_wins:
  assumes "getScheduleEntries pref = pre @ e # post"
    and "\<forall>x\<in>set pre. \<not> spec_entryMatches x (currentTime clk) (dayOfWeek clk)"
    and "spec_entryMatches e (currentTime clk) (dayOfWeek clk)"
  shows "getCurrentSpeedProfile pref clk = profileName e"
  using assms loop_skips_prefix [of pre "currentTime clk" "dayOfWeek clk" "e # post"]
  by (simp add: getCurrentSpeedProfile_def loop_Cons del: getCurrentSpeedProfile_loop.simps)

text \<open>
  Two entries that both match on a Tuesday at 18:00, in either order: the result follows
  the first one.
\<close>

theorem first_matching_entry_wins_witness:
  "spec_entryMatches
     \<lparr>startTime = QTime_hms 8 0 0 0, endTime = QTime_hms 18 0 0 0, days = Weekday,
      profileName = ''Work''\<rparr> (QTime_hms 18 0 0 0) 2
   \<and> spec_entryMatches
     \<lparr>startTime = QTime_hms 18 0 0 0, endTime = QTime_hms 8 0 0 0, days = EveryDay,
      profileName = ''Night''\<rparr> (QTime_hms 18 0 0 0) 2
   \<and> getCurrentSpeedProfile
       \<lparr>getSchedulerStartTime = 0, getSchedulerEndTime = 0, getSchedulerDays = EveryDay,
        getScheduleEntries =
          [\<lparr>startTime = QTime_hms 8 0 0 0, endTime = QTime_hms 18 0 0 0, days = Weekday,
            profileName = ''Work''\<rparr>,
           \<lparr>startTime = QTime_hms 18 0 0 0, endTime = QTime_hms 8 0 0 0, days = EveryDay,
            profileName = ''Night''\<rparr>],
        getDefaultSpeedProfile = ''Normal''\<rparr>
       \<lparr>currentTime = QTime_hms 18 0 0 0, dayOfWeek = 2\<rparr> = ''Work''
   \<and> getCurrentSpeedProfile
       \<lparr>getSchedulerStartTime = 0, getSchedulerEndTime = 0, getSchedulerDays = EveryDay,
        getScheduleEntries =
          [\<lparr>startTime = QTime_hms 18 0 0 0, endTime = QTime_hms 8 0 0 0, days = EveryDay,
            profileName = ''Night''\<rparr>,
           \<lparr>startTime = QTime_hms 8 0 0 0, endTime = QTime_hms 18 0 0 0, days = Weekday,
            profileName = ''Work''\<rparr>],
        getDefaultSpeedProfile = ''Normal''\<rparr>
       \<lparr>currentTime = QTime_hms 18 0 0 0, dayOfWeek = 2\<rparr> = ''Night''"
proof -
  let ?work = "\<lparr>startTime = QTime_hms 8 0 0 0, endTime = QTime_hms 18 0 0 0, days = Weekday,
      profileName = ''Work''\<rparr>"
  let ?night = "\<lparr>startTime = QTime_hms 18 0 0 0, endTime = QTime_hms 8 0 0 0, days = EveryDay,
      profileName = ''Night''\<rparr>"
  let ?clk = "\<lparr>currentTime = QTime_hms 18 0 0 0, dayOfWeek = 2\<rparr>"
  have mw: "spec_entryMatches ?work (QTime_hms 18 0 0 0) 2"
    by (simp add: spec_entryMatches_def spec_inTimeRange_def isDayMatch_eval
        QTime_hms_def)
  have mn: "spec_entryMatches ?night (QTime_hms 18 0 0 0) 2"
    by (simp add: spec_entryMatches_def spec_inTimeRange_def isDayMatch_eval
        QTime_hms_def)
  have "getCurrentSpeedProfile
       \<lparr>getSchedulerStartTime = 0, getSchedulerEndTime = 0, getSchedulerDays = EveryDay,
        getScheduleEntries = [?work, ?night], getDefaultSpeedProfile = ''Normal''\<rparr> ?clk
       = profileName ?work"
    by (rule first_matching_entry_wins [where pre = "[]" and post = "[?night]"])
      (simp_all add: mw)
  moreover have "getCurrentSpeedProfile
       \<lparr>getSchedulerStartTime = 0, getSchedulerEndTime = 0, getSchedulerDays = EveryDay,
        getScheduleEntries = [?night, ?work], getDefaultSpeedProfile = ''Normal''\<rparr> ?clk
       = profileName ?night"
    by (rule first_matching_entry_wins [where pre = "[]" and post = "[?work]"])
      (simp_all add: mn)
  ultimately show ?thesis
    using mw mn by simp
qed

text \<open>
  C3.  When no entry of the list passes both the day test and the time-range test (the
  empty list included), the resolver returns the default profile name as it is, be it
  empty or the name of no stored profile.  The resolver is a total function with a plain
  string as its result: it has no failing branch.
\<close>

theorem no_match_gives_default:
  assumes "\<forall>e\<in>set (getScheduleEntries pref).
             \<not> spec_entryMatches e (currentTime clk) (dayOfWeek clk)"
  shows "getCurrentSpeedProfile pref clk = getDefaultSpeedProfile pref"
  using assms loop_skips_prefix [of "getScheduleEntries pref" "currentTime clk" "dayOfWeek clk" "[]"]
  by (simp add: getCurrentSpeedProfile_def)

text \<open>
  The scenario of the specification on a Saturday at 10:00 with an empty default name,
  and the empty list.
\<close>

theorem no_match_gives_default_witness:
  "\<not> spec_entryMatches
       \<lparr>startTime = QTime_hms 8 0 0 0, endTime = QTime_hms 18 0 0 0, days = Weekday,
        profileName = ''Work''\<rparr> (QTime_hms 10 0 0 0) 6
   \<and> \<not> spec_entryMatches
       \<lparr>startTime = QTime_hms 18 0 0 0, endTime = QTime_hms 8 0 0 0, days = EveryDay,
        profileName = ''Night''\<rparr> (QTime_hms 10 0 0 0) 6
   \<and> getCurrentSpeedProfile
       \<lparr>getSchedulerStartTime = 0, getSchedulerEndTime = 0, getSchedulerDays = EveryDay,
        getScheduleEntries =
          [\<lparr>startTime = QTime_hms 8 0 0 0, endTime = QTime_hms 18 0 0 0, days = Weekday,
            profileName = ''Work''\<rparr>,
           \<lparr>startTime = QTime_hms 18 0 0 0, endTime = QTime_hms 8 0 0 0, days = EveryDay,
            profileName = ''Night''\<rparr>],
        getDefaultSpeedProfile = ''''\<rparr>
       \<lparr>currentTime = QTime_hms 10 0 0 0, dayOfWeek = 6\<rparr> = ''''
   \<and> getCurrentSpeedProfile
       \<lparr>getSchedulerStartTime = 0, getSchedulerEndTime = 0, getSchedulerDays = EveryDay,
        getScheduleEntries = [], getDefaultSpeedProfile = ''Deleted profile''\<rparr>
       \<lparr>currentTime = QTime_hms 10 0 0 0, dayOfWeek = 6\<rparr> = ''Deleted profile''"
proof -
  let ?work = "\<lparr>startTime = QTime_hms 8 0 0 0, endTime = QTime_hms 18 0 0 0, days = Weekday,
      profileName = ''Work''\<rparr>"
  let ?night = "\<lparr>startTime = QTime_hms 18 0 0 0, endTime = QTime_hms 8 0 0 0, days = EveryDay,
      profileName = ''Night''\<rparr>"
  let ?clk = "\<lparr>currentTime = QTime_hms 10 0 0 0, dayOfWeek = 6\<rparr>"
  have mw: "\<not> spec_entryMatches ?work (QTime_hms 10 0 0 0) 6"
    by (simp add: spec_entryMatches_def spec_inTimeRange_def isDayMatch_eval
        QTime_hms_def)
  have mn: "\<not> spec_entryMatches ?night (QTime_hms 10 0 0 0) 6"
    by (simp add: spec_entryMatches_def spec_inTimeRange_def isDayMatch_eval
        QTime_hms_def)
  have "getCurrentSpeedProfile
       \<lparr>getSchedulerStartTime = 0, getSchedulerEndTime = 0, getSchedulerDays = EveryDay,
        getScheduleEntries = [?work, ?night], getDefaultSpeedProfile = ''''\<rparr> ?clk = ''''"
    using no_match_gives_default [of "\<lparr>getSchedulerStartTime = 0, getSchedulerEndTime = 0,
        getSchedulerDays = EveryDay, getScheduleEntries = [?work, ?night],
        getDefaultSpeedProfile = ''''\<rparr>" ?clk] mw mn
    by simp
  moreover have "getCurrentSpeedProfile
       \<lparr>getSchedulerStartTime = 0, getSchedulerEndTime = 0, getSchedulerDays = EveryDay,
        getScheduleEntries = [], getDefaultSpeedProfile = ''Deleted profile''\<rparr> ?clk
       = ''Deleted profile''"
    using no_match_gives_default [of "\<lparr>getSchedulerStartTime = 0, getSchedulerEndTime = 0,
        getSchedulerDays = EveryDay, getScheduleEntries = [],
        getDefaultSpeedProfile = ''Deleted profile''\<rparr>" ?clk]
    by simp
  ultimately show ?thesis
    using mw mn by simp
qed

text \<open>
  C9, as stated: an entry with \<open>startTime = endTime\<close> is a whole-day window, active at
  every time of a matching day.  It is not: an entry 08:00 to 08:00 for every day is
  passed over at 12:00, and the resolver returns the default name.
\<close>

theorem equal_times_not_whole_day:
  "isDayMatch EveryDay 2
   \<and> getCurrentSpeedProfile
       \<lparr>getSchedulerStartTime = 0, getSchedulerEndTime = 0, getSchedulerDays = EveryDay,
        getScheduleEntries =
          [\<lparr>startTime = QTime_hms 8 0 0 0, endTime = QTime_hms 8 0 0 0, days = EveryDay,
            profileName = ''Night''\<rparr>],
        getDefaultSpeedProfile = ''Normal''\<rparr>
       \<lparr>currentTime = QTime_hms 12 0 0 0, dayOfWeek = 2\<rparr> = ''Normal''"
  by (simp add: getCurrentSpeedProfile_def isDayMatch_eval QTime_hms_def)

text \<open>
  C9, as amended.  An entry with \<open>startTime = endTime\<close> takes the branch
  \<open>startTime \<le> endTime\<close>: on a matching day the loop returns its profile name exactly
  at the single instant \<open>now = startTime\<close>, and goes on to the next entry at every other
  time.
\<close>

theorem equal_times_single_instant:
  assumes "isDayMatch (days entry) day"
    and "startTime entry = endTime entry"
  shows "getCurrentSpeedProfile_loop (entry # rest) now day =
           (if now = startTime entry then Some (profileName entry)
            else getCurrentSpeedProfile_loop rest now day)"
  using assms by auto

text \<open>The entry 08:00 to 08:00 at 08:00 and one millisecond later.\<close>

theorem equal_times_single_instant_witness:
  "isDayMatch EveryDay 2
   \<and> getCurrentSpeedProfile_loop
       [\<lparr>startTime = QTime_hms 8 0 0 0, endTime = QTime_hms 8 0 0 0, days = EveryDay,
         profileName = ''Night''\<rparr>] (QTime_hms 8 0 0 0) 2 = Some ''Night''
   \<and> getCurrentSpeedProfile_loop
       [\<lparr>startTime = QTime_hms 8 0 0 0, endTime = QTime_hms 8 0 0 0, days = EveryDay,
         profileName = ''Night''\<rparr>] (QTime_hms 8 0 0 1) 2 = None"
proof -
  have d: "isDayMatch EveryDay 2"
    by (simp add: isDayMatch_eval)
  note e = equal_times_single_instant [of "\<lparr>startTime = QTime_hms 8 0 0 0,
    endTime = QTime_hms 8 0 0 0, days = EveryDay, profileName = ''Night''\<rparr>" 2 "[]"]
  show ?thesis
    using d e [of "QTime_hms 8 0 0 0"] e [of "QTime_hms 8 0 0 1"]
    by (simp add: QTime_hms_def)
qed

section \<open>The legacy alternative-limits evaluator\<close>

text \<open>
  The evaluator in one equation: the assertion of unreachability when the selector is no
  enumerator and \<open>now\<close> lies in the normalized window, and otherwise the exclusive or of
  "the window wraps" and "now is in the normalized window and the day matches".
\<close>

lemma legacy_switch:
  "(if D = EveryDay then Inr (\<not> alt)
    else if D = Monday \<or> D = Tuesday \<or> D = Wednesday \<or> D = Thursday \<or> D = Friday
         \<or> D = Saturday \<or> D = Sunday
    then (let offset = Monday - 1; dayOfWeek = D - offset
          in Inr (if day = dayOfWeek then \<not> alt else alt))
    else if D = Weekday then Inr (if (1 \<le>s day) \<and> (day \<le>s 5) then \<not> alt else alt)
    else if D = Weekend then Inr (if (day = 6) \<or> (day = 7) then \<not> alt else alt)
    else Inl Unreachable)
   = (if D \<in> set recognizedDays then Inr (alt \<noteq> isDayMatch D day) else Inl Unreachable)"
proof -
  consider "D = 0" | "D = 1" | "D = 2" | "D = 3" | "D = 4" | "D = 5" | "D = 6" | "D = 7"
    | "D = 8" | "D = 9" | "D \<notin> {0, 1, 2, 3, 4, 5, 6, 7, 8, 9}"
    by blast
  then show ?thesis
  proof cases
    case 11
    then show ?thesis
      by (simp add: recognizedDays_def Days_defs)
  qed (simp_all add: recognizedDays_def Days_defs isDayMatch_def)
qed

lemma isTimeForAlternative_eq:
  "isTimeForAlternative pref clk =
     (if min (getSchedulerStartTime pref) (getSchedulerEndTime pref) \<le> currentTime clk
         \<and> currentTime clk \<le> max (getSchedulerStartTime pref) (getSchedulerEndTime pref)
         \<and> getSchedulerDays pref \<notin> set recognizedDays
      then Inl Unreachable
      else Inr ((getSchedulerEndTime pref < getSchedulerStartTime pref) \<noteq>
                (min (getSchedulerStartTime pref) (getSchedulerEndTime pref) \<le> currentTime clk
                 \<and> currentTime clk \<le> max (getSchedulerStartTime pref) (getSchedulerEndTime pref)
                 \<and> isDayMatch (getSchedulerDays pref) (dayOfWeek clk))))"
proof (cases "getSchedulerEndTime pref < getSchedulerStartTime pref")
  case True
  then have "isTimeForAlternative pref clk =
      (if getSchedulerEndTime pref \<le> currentTime clk \<and> currentTime clk \<le> getSchedulerStartTime pref
       then (if getSchedulerDays pref \<in> set recognizedDays
             then Inr (True \<noteq> isDayMatch (getSchedulerDays pref) (dayOfWeek clk))
             else Inl Unreachable)
       else Inr True)"
    unfolding isTimeForAlternative_def Let_def legacy_switch [unfolded Let_def] by simp
  with True show ?thesis
    by (auto simp: min_def max_def)
next
  case False
  then have "isTimeForAlternative pref clk =
      (if getSchedulerStartTime pref \<le> currentTime clk \<and> currentTime clk \<le> getSchedulerEndTime pref
       then (if getSchedulerDays pref \<in> set recognizedDays
             then Inr (False \<noteq> isDayMatch (getSchedulerDays pref) (dayOfWeek clk))
             else Inl Unreachable)
       else Inr False)"
    unfolding isTimeForAlternative_def Let_def legacy_switch [unfolded Let_def] by simp
  with False show ?thesis
    by (auto simp: min_def max_def)
qed

text \<open>
  C7, as stated: the evaluator returns the exclusive or of "the window wraps" and "now
  lies in the normalized window and the day selector matches the current day".  It does
  not for a selector code outside the enumeration when \<open>now\<close> lies in the normalized
  window: with the wrapping window 23:00 to 01:00, the code 42 and \<open>now\<close> at 12:00 the
  selector matches no day, so the stated value is true, but the \<open>switch\<close> takes its
  \<open>default\<close> branch and the evaluator returns nothing.
\<close>

theorem isTimeForAlternative_not_xor:
  "(42 :: Days) \<notin> set recognizedDays
   \<and> \<not> isDayMatch 42 3
   \<and> isTimeForAlternative
       \<lparr>getSchedulerStartTime = QTime_hms 23 0 0 0, getSchedulerEndTime = QTime_hms 1 0 0 0,
        getSchedulerDays = 42, getScheduleEntries = [], getDefaultSpeedProfile = []\<rparr>
       \<lparr>currentTime = QTime_hms 12 0 0 0, dayOfWeek = 3\<rparr> = Inl Unreachable
   \<and> isTimeForAlternative
       \<lparr>getSchedulerStartTime = QTime_hms 23 0 0 0, getSchedulerEndTime = QTime_hms 1 0 0 0,
        getSchedulerDays = 42, getScheduleEntries = [], getDefaultSpeedProfile = []\<rparr>
       \<lparr>currentTime = QTime_hms 12 0 0 0, dayOfWeek = 3\<rparr>
     \<noteq> Inr ((QTime_hms 23 0 0 0 > QTime_hms 1 0 0 0) \<noteq>
             (min (QTime_hms 23 0 0 0) (QTime_hms 1 0 0 0) \<le> QTime_hms 12 0 0 0
              \<and> QTime_hms 12 0 0 0 \<le> max (QTime_hms 23 0 0 0) (QTime_hms 1 0 0 0)
              \<and> isDayMatch 42 3))"
  by (simp add: isTimeForAlternative_eq isDayMatch_def recognizedDays_def Days_defs
      QTime_hms_def)

text \<open>
  C7, as amended.  Whenever the day selector is one of the enumerators, or \<open>now\<close> lies
  outside the closed interval between the smaller and the larger of the two times, the
  evaluator returns the exclusive or of "start > end" (the window wraps, the flag starts
  as true after the swap) and "now lies in that interval and the day selector matches
  the current day"; a selector code outside the enumeration matches no day, so outside
  the interval the flag comes back as it was set.
\<close>

theorem isTimeForAlternative_xor:
  assumes "getSchedulerDays pref \<in> set recognizedDays
           \<or> \<not> (min (getSchedulerStartTime pref) (getSchedulerEndTime pref) \<le> currentTime clk
                 \<and> currentTime clk \<le> max (getSchedulerStartTime pref) (getSchedulerEndTime pref))"
  shows "isTimeForAlternative pref clk =
           Inr ((getSchedulerStartTime pref > getSchedulerEndTime pref) \<noteq>
                (min (getSchedulerStartTime pref) (getSchedulerEndTime pref) \<le> currentTime clk
                 \<and> currentTime clk \<le> max (getSchedulerStartTime pref) (getSchedulerEndTime pref)
                 \<and> isDayMatch (getSchedulerDays pref) (dayOfWeek clk)))"
  using assms by (auto simp: isTimeForAlternative_eq)

text \<open>
  A window 08:00 to 18:00 on weekdays, inside on a Tuesday and on a Saturday; the
  wrapping window 23:00 to 01:00 every day, at midnight and at noon; and the same
  wrapping window with the selector code 42 at 00:30, outside the normalized window.
\<close>

theorem isTimeForAlternative_xor_witness:
  "Weekday \<in> set recognizedDays \<and> EveryDay \<in> set recognizedDays
   \<and> (42 :: Days) \<notin> set recognizedDays
   \<and> isTimeForAlternative
       \<lparr>getSchedulerStartTime = QTime_hms 8 0 0 0, getSchedulerEndTime = QTime_hms 18 0 0 0,
        getSchedulerDays = Weekday, getScheduleEntries = [], getDefaultSpeedProfile = []\<rparr>
       \<lparr>currentTime = QTime_hms 12 0 0 0, dayOfWeek = 2\<rparr> = Inr True
   \<and> isTimeForAlternative
       \<lparr>getSchedulerStartTime = QTime_hms 8 0 0 0, getSchedulerEndTime = QTime_hms 18 0 0 0,
        getSchedulerDays = Weekday, getScheduleEntries = [], getDefaultSpeedProfile = []\<rparr>
       \<lparr>currentTime = QTime_hms 12 0 0 0, dayOfWeek = 6\<rparr> = Inr False
   \<and> isTimeForAlternative
       \<lparr>getSchedulerStartTime = QTime_hms 23 0 0 0, getSchedulerEndTime = QTime_hms 1 0 0 0,
        getSchedulerDays = EveryDay, getScheduleEntries = [], getDefaultSpeedProfile = []\<rparr>
       \<lparr>currentTime = QTime_hms 0 0 0 0, dayOfWeek = 2\<rparr> = Inr True
   \<and> isTimeForAlternative
       \<lparr>getSchedulerStartTime = QTime_hms 23 0 0 0, getSchedulerEndTime = QTime_hms 1 0 0 0,
        getSchedulerDays = EveryDay, getScheduleEntries = [], getDefaultSpeedProfile = []\<rparr>
       \<lparr>currentTime = QTime_hms 12 0 0 0, dayOfWeek = 2\<rparr> = Inr False
   \<and> isTimeForAlternative
       \<lparr>getSchedulerStartTime = QTime_hms 23 0 0 0, getSchedulerEndTime = QTime_hms 1 0 0 0,
        getSchedulerDays = 42, getScheduleEntries = [], getDefaultSpeedProfile = []\<rparr>
       \<lparr>currentTime = QTime_hms 0 30 0 0, dayOfWeek = 2\<rparr> = Inr True"
proof -
  let ?day = "\<lparr>getSchedulerStartTime = QTime_hms 8 0 0 0, getSchedulerEndTime = QTime_hms 18 0 0 0,
        getSchedulerDays = Weekday, getScheduleEntries = [], getDefaultSpeedProfile = []\<rparr>"
  let ?night = "\<lparr>getSchedulerStartTime = QTime_hms 23 0 0 0, getSchedulerEndTime = QTime_hms 1 0 0 0,
        getSchedulerDays = EveryDay, getScheduleEntries = [], getDefaultSpeedProfile = []\<rparr>"
  let ?odd = "\<lparr>getSchedulerStartTime = QTime_hms 23 0 0 0, getSchedulerEndTime = QTime_hms 1 0 0 0,
        getSchedulerDays = 42, getScheduleEntries = [], getDefaultSpeedProfile = []\<rparr>"
  have r: "Weekday \<in> set recognizedDays" "EveryDay \<in> set recognizedDays"
    "(42 :: Days) \<notin> set recognizedDays"
    by (simp_all add: recognizedDays_def Days_defs)
  have u: "\<not> isDayMatch 42 2"
    by (simp add: isDayMatch_def Days_defs)
  show ?thesis
    using r u
      isTimeForAlternative_xor [of ?day "\<lparr>currentTime = QTime_hms 12 0 0 0, dayOfWeek = 2\<rparr>"]
      isTimeForAlternative_xor [of ?day "\<lparr>currentTime = QTime_hms 12 0 0 0, dayOfWeek = 6\<rparr>"]
      isTimeForAlternative_xor [of ?night "\<lparr>currentTime = QTime_hms 0 0 0 0, dayOfWeek = 2\<rparr>"]
      isTimeForAlternative_xor [of ?night "\<lparr>currentTime = QTime_hms 12 0 0 0, dayOfWeek = 2\<rparr>"]
      isTimeForAlternative_xor [of ?odd "\<lparr>currentTime = QTime_hms 0 30 0 0, dayOfWeek = 2\<rparr>"]
    by (simp add: QTime_hms_def isDayMatch_eval)
qed

section \<open>Defined results\<close>

lemma loop_result:
  "getCurrentSpeedProfile_loop es now day = Some n \<Longrightarrow> n \<in> profileName ` set es"
  by (induction es) (auto simp: Let_def split: if_splits)

lemma getCurrentSpeedProfile_result:
  "getCurrentSpeedProfile pref clk
     \<in> insert (getDefaultSpeedProfile pref) (profileName ` set (getScheduleEntries pref))"
  by (auto simp: getCurrentSpeedProfile_def dest: loop_result split: option.splits)

lemma isDayMatch_unrecognized:
  "sel \<notin> set recognizedDays \<Longrightarrow> \<not> isDayMatch sel d"
  by (simp add: isDayMatch_def recognizedDays_def Days_defs)

text \<open>
  C8, as stated: both evaluators give a defined result on every input, a selector code
  outside the enumeration included.  The resolver does.  The legacy evaluator does
  not: with such a selector and \<open>now\<close> inside the normalized window, its \<open>switch\<close> takes
  the \<open>default\<close> branch, which is \<open>Q_UNREACHABLE()\<close>.
\<close>

theorem legacy_evaluator_unreachable:
  "(10 :: Days) \<notin> set recognizedDays
   \<and> isTimeForAlternative
       \<lparr>getSchedulerStartTime = QTime_hms 8 0 0 0, getSchedulerEndTime = QTime_hms 18 0 0 0,
        getSchedulerDays = 10, getScheduleEntries = [], getDefaultSpeedProfile = []\<rparr>
       \<lparr>currentTime = QTime_hms 12 0 0 0, dayOfWeek = 1\<rparr> = Inl Unreachable"
  by (simp add: isTimeForAlternative_eq recognizedDays_def Days_defs QTime_hms_def)

text \<open>
  C8, as amended.  The resolver returns, on every input, the profile name of one of
  the entries (as it is stored, whether or not a profile of that name exists) or the
  default name, and it passes over an entry whose selector is no enumerator.  The legacy
  evaluator returns a boolean whenever the selector is an enumerator or \<open>now\<close> lies
  outside the normalized window; with a selector that is no enumerator and \<open>now\<close> inside
  the window it ends in the assertion of unreachability.
\<close>

theorem evaluation_defined:
  "getCurrentSpeedProfile pref clk
     \<in> insert (getDefaultSpeedProfile pref) (profileName ` set (getScheduleEntries pref))
   \<and> (days entry \<notin> set recognizedDays \<longrightarrow>
        getCurrentSpeedProfile_loop (entry # rest) now day =
          getCurrentSpeedProfile_loop rest now day)
   \<and> (getSchedulerDays pref \<in> set recognizedDays
        \<or> \<not> (min (getSchedulerStartTime pref) (getSchedulerEndTime pref) \<le> currentTime clk
              \<and> currentTime clk \<le> max (getSchedulerStartTime pref) (getSchedulerEndTime pref))
        \<longrightarrow> (\<exists>b. isTimeForAlternative pref clk = Inr b))
   \<and> (getSchedulerDays pref \<notin> set recognizedDays
        \<and> min (getSchedulerStartTime pref) (getSchedulerEndTime pref) \<le> currentTime clk
        \<and> currentTime clk \<le> max (getSchedulerStartTime pref) (getSchedulerEndTime pref)
        \<longrightarrow> isTimeForAlternative pref clk = Inl Unreachable)"
proof -
  have "days entry \<notin> set recognizedDays \<longrightarrow>
        getCurrentSpeedProfile_loop (entry # rest) now day =
          getCurrentSpeedProfile_loop rest now day"
    by (simp add: isDayMatch_unrecognized)
  moreover have "getSchedulerDays pref \<in> set recognizedDays
        \<or> \<not> (min (getSchedulerStartTime pref) (getSchedulerEndTime pref) \<le> currentTime clk
              \<and> currentTime clk \<le> max (getSchedulerStartTime pref) (getSchedulerEndTime pref))
        \<longrightarrow> (\<exists>b. isTimeForAlternative pref clk = Inr b)"
    by (auto simp: isTimeForAlternative_eq)
  moreover have "getSchedulerDays pref \<notin> set recognizedDays
        \<and> min (getSchedulerStartTime pref) (getSchedulerEndTime pref) \<le> currentTime clk
        \<and> currentTime clk \<le> max (getSchedulerStartTime pref) (getSchedulerEndTime pref)
        \<longrightarrow> isTimeForAlternative pref clk = Inl Unreachable"
    by (simp add: isTimeForAlternative_eq)
  ultimately show ?thesis
    using getCurrentSpeedProfile_result [of pref clk] by blast
qed

text \<open>
  An entry with the selector code 10 is passed over by the resolver, which returns the
  default name; the legacy evaluator with the same code gives a boolean at 20:00, outside
  its window 08:00 to 18:00, and ends in the assertion at 12:00.
\<close>

theorem evaluation_defined_witness:
  "(10 :: Days) \<notin> set recognizedDays
   \<and> getCurrentSpeedProfile
       \<lparr>getSchedulerStartTime = QTime_hms 8 0 0 0, getSchedulerEndTime = QTime_hms 18 0 0 0,
        getSchedulerDays = 10,
        getScheduleEntries =
          [\<lparr>startTime = QTime_hms 8 0 0 0, endTime = QTime_hms 18 0 0 0, days = 10,
            profileName = ''Work''\<rparr>],
        getDefaultSpeedProfile = ''Normal''\<rparr>
       \<lparr>currentTime = QTime_hms 12 0 0 0, dayOfWeek = 1\<rparr> \<in> {''Normal'', ''Work''}
   \<and> getCurrentSpeedProfile_loop
       [\<lparr>startTime = QTime_hms 8 0 0 0, endTime = QTime_hms 18 0 0 0, days = 10,
         profileName = ''Work''\<rparr>] (QTime_hms 12 0 0 0) 1 = None
   \<and> (\<exists>b. isTimeForAlternative
       \<lparr>getSchedulerStartTime = QTime_hms 8 0 0 0, getSchedulerEndTime = QTime_hms 18 0 0 0,
        getSchedulerDays = 10,
        getScheduleEntries =
          [\<lparr>startTime = QTime_hms 8 0 0 0, endTime = QTime_hms 18 0 0 0, days = 10,
            profileName = ''Work''\<rparr>],
        getDefaultSpeedProfile = ''Normal''\<rparr>
       \<lparr>currentTime = QTime_hms 20 0 0 0, dayOfWeek = 1\<rparr> = Inr b)
   \<and> isTimeForAlternative
       \<lparr>getSchedulerStartTime = QTime_hms 8 0 0 0, getSchedulerEndTime = QTime_hms 18 0 0 0,
        getSchedulerDays = 10,
        getScheduleEntries =
          [\<lparr>startTime = QTime_hms 8 0 0 0, endTime = QTime_hms 18 0 0 0, days = 10,
            profileName = ''Work''\<rparr>],
        getDefaultSpeedProfile = ''Normal''\<rparr>
       \<lparr>currentTime = QTime_hms 12 0 0 0, dayOfWeek = 1\<rparr> = Inl Unreachable"
proof -
  let ?e = "\<lparr>startTime = QTime_hms 8 0 0 0, endTime = QTime_hms 18 0 0 0, days = 10,
            profileName = ''Work''\<rparr>"
  let ?pref = "\<lparr>getSchedulerStartTime = QTime_hms 8 0 0 0, getSchedulerEndTime = QTime_hms 18 0 0 0,
        getSchedulerDays = 10, getScheduleEntries = [?e], getDefaultSpeedProfile = ''Normal''\<rparr>"
  have r: "(10 :: Days) \<notin> set recognizedDays"
    by (simp add: recognizedDays_def Days_defs)
  show ?thesis
    using r
      evaluation_defined [of ?pref "\<lparr>currentTime = QTime_hms 12 0 0 0, dayOfWeek = 1\<rparr>"
        ?e "[]" "QTime_hms 12 0 0 0" 1]
      evaluation_defined [of ?pref "\<lparr>currentTime = QTime_hms 20 0 0 0, dayOfWeek = 1\<rparr>"
        ?e "[]" "QTime_hms 12 0 0 0" 1]
    by (simp add: QTime_hms_def)
qed

section \<open>The scheduler loop\<close>

lemma lastBandwidthLimitRequested_append:
  "lastBandwidthLimitRequested (xs @ ys) =
     (case lastBandwidthLimitRequested ys of
        Some b \<Rightarrow> Some b
      | None \<Rightarrow> lastBandwidthLimitRequested xs)"
  by (induction xs) (simp_all split: option.splits)

lemma lastSpeedProfileRequested_append:
  "lastSpeedProfileRequested (xs @ ys) =
     (case lastSpeedProfileRequested ys of
        Some p \<Rightarrow> Some p
      | None \<Rightarrow> lastSpeedProfileRequested xs)"
  by (induction xs) (simp_all split: option.splits)

text \<open>A tick whose two evaluated values are the ones in the cells changes nothing.\<close>

lemma onTimeout_same:
  "isTimeForAlternative pref clkA = Inr (m_lastAlternative s) \<Longrightarrow>
   getCurrentSpeedProfile pref clkP = m_lastActiveProfile s \<Longrightarrow>
   onTimeout pref clkA clkP s = Inr s"
  by (simp add: onTimeout_def)

lemma onTimeouts_same:
  "\<forall>(pref, clkA, clkP)\<in>set ticks.
       isTimeForAlternative pref clkA = Inr (m_lastAlternative s)
       \<and> getCurrentSpeedProfile pref clkP = m_lastActiveProfile s \<Longrightarrow>
   onTimeouts ticks s = Inr s"
  by (induction ticks) (auto simp: onTimeout_same)

text \<open>
  C5, as stated: \<open>start()\<close> computes and emits both the legacy value and the resolved
  profile name.  It emits the legacy value only: on a new object, with the
  resolver giving the name Normal, the effects of \<open>start()\<close> are the legacy signal
  and the arming of the timer, and no profile name has been emitted.
\<close>

theorem start_emits_no_profile:
  "getCurrentSpeedProfile
     \<lparr>getSchedulerStartTime = QTime_hms 8 0 0 0, getSchedulerEndTime = QTime_hms 18 0 0 0,
      getSchedulerDays = EveryDay, getScheduleEntries = [],
      getDefaultSpeedProfile = ''Normal''\<rparr>
     \<lparr>currentTime = QTime_hms 20 0 0 0, dayOfWeek = 2\<rparr> = ''Normal''
   \<and> start
       \<lparr>getSchedulerStartTime = QTime_hms 8 0 0 0, getSchedulerEndTime = QTime_hms 18 0 0 0,
        getSchedulerDays = EveryDay, getScheduleEntries = [],
        getDefaultSpeedProfile = ''Normal''\<rparr>
       \<lparr>currentTime = QTime_hms 20 0 0 0, dayOfWeek = 2\<rparr> BandwidthScheduler_new
     = Inr \<lparr>m_lastAlternative = False, m_lastActiveProfile = [],
            effects = [bandwidthLimitRequested False, timerStart 30000]\<rparr>
   \<and> lastSpeedProfileRequested [bandwidthLimitRequested False, timerStart 30000] = None"
  by (simp add: getCurrentSpeedProfile_def start_def isTimeForAlternative_eq
      BandwidthScheduler_new_def recognizedDays_def QTime_hms_def)

text \<open>
  C5, as amended.  Whenever the legacy evaluator gives a value, \<open>start()\<close> stores that value
  in the cell of the legacy signal, emits it without comparing it with the previous
  content of the cell, and then arms the timer with a period of 30 seconds.  These are
  its only effects, so the legacy value is the last one emitted on its signal; the cell
  of the profile name is left as it was and no profile name is emitted.
\<close>

theorem start_emits_legacy:
  assumes "isTimeForAlternative pref clk = Inr alternative"
  shows "start pref clk s =
           Inr (s\<lparr>m_lastAlternative := alternative,
                  effects := effects s @ [bandwidthLimitRequested alternative, timerStart 30000]\<rparr>)
       \<and> lastBandwidthLimitRequested
           (effects s @ [bandwidthLimitRequested alternative, timerStart 30000]) = Some alternative
       \<and> lastSpeedProfileRequested
           (effects s @ [bandwidthLimitRequested alternative, timerStart 30000])
         = lastSpeedProfileRequested (effects s)"
  using assms
  by (simp add: start_def lastBandwidthLimitRequested_append lastSpeedProfileRequested_append)

text \<open>A start whose value, false, equals the previous content of the cell.\<close>

theorem start_emits_legacy_witness:
  "isTimeForAlternative
     \<lparr>getSchedulerStartTime = QTime_hms 8 0 0 0, getSchedulerEndTime = QTime_hms 18 0 0 0,
      getSchedulerDays = EveryDay, getScheduleEntries = [],
      getDefaultSpeedProfile = ''Normal''\<rparr>
     \<lparr>currentTime = QTime_hms 20 0 0 0, dayOfWeek = 2\<rparr> = Inr False
   \<and> start
       \<lparr>getSchedulerStartTime = QTime_hms 8 0 0 0, getSchedulerEndTime = QTime_hms 18 0 0 0,
        getSchedulerDays = EveryDay, getScheduleEntries = [],
        getDefaultSpeedProfile = ''Normal''\<rparr>
       \<lparr>currentTime = QTime_hms 20 0 0 0, dayOfWeek = 2\<rparr>
       \<lparr>m_lastAlternative = False, m_lastActiveProfile = ''Night'', effects = []\<rparr>
     = Inr \<lparr>m_lastAlternative = False, m_lastActiveProfile = ''Night'',
            effects = [bandwidthLimitRequested False, timerStart 30000]\<rparr>"
proof -
  let ?pref = "\<lparr>getSchedulerStartTime = QTime_hms 8 0 0 0, getSchedulerEndTime = QTime_hms 18 0 0 0,
      getSchedulerDays = EveryDay, getScheduleEntries = [],
      getDefaultSpeedProfile = ''Normal''\<rparr>"
  let ?clk = "\<lparr>currentTime = QTime_hms 20 0 0 0, dayOfWeek = 2\<rparr>"
  have a: "isTimeForAlternative ?pref ?clk = Inr False"
    by (simp add: isTimeForAlternative_eq recognizedDays_def QTime_hms_def)
  show ?thesis
    using a start_emits_legacy [OF a,
        of "\<lparr>m_lastAlternative = False, m_lastActiveProfile = ''Night'', effects = []\<rparr>"]
    by simp
qed

text \<open>
  C6, as stated: once \<open>start()\<close> has run, every tick emits on a signal exactly when the
  new value differs from the last value emitted on that signal, so that ticks with no
  change underneath emit nothing.  It fails on the first tick: \<open>start()\<close> emitted no
  profile name, the cell of the profile name still holds its initial empty value, and the
  tick, with the preferences and the clock as they were at \<open>start()\<close>, emits the name
  Normal.
\<close>

theorem first_tick_emits_profile:
  "start
     \<lparr>getSchedulerStartTime = QTime_hms 8 0 0 0, getSchedulerEndTime = QTime_hms 18 0 0 0,
      getSchedulerDays = EveryDay, getScheduleEntries = [],
      getDefaultSpeedProfile = ''Normal''\<rparr>
     \<lparr>currentTime = QTime_hms 20 0 0 0, dayOfWeek = 2\<rparr> BandwidthScheduler_new
     = Inr \<lparr>m_lastAlternative = False, m_lastActiveProfile = [],
            effects = [bandwidthLimitRequested False, timerStart 30000]\<rparr>
   \<and> lastSpeedProfileRequested [bandwidthLimitRequested False, timerStart 30000] = None
   \<and> onTimeout
       \<lparr>getSchedulerStartTime = QTime_hms 8 0 0 0, getSchedulerEndTime = QTime_hms 18 0 0 0,
        getSchedulerDays = EveryDay, getScheduleEntries = [],
        getDefaultSpeedProfile = ''Normal''\<rparr>
       \<lparr>currentTime = QTime_hms 20 0 0 0, dayOfWeek = 2\<rparr>
       \<lparr>currentTime = QTime_hms 20 0 0 0, dayOfWeek = 2\<rparr>
       \<lparr>m_lastAlternative = False, m_lastActiveProfile = [],
        effects = [bandwidthLimitRequested False, timerStart 30000]\<rparr>
     = Inr \<lparr>m_lastAlternative = False, m_lastActiveProfile = ''Normal'',
            effects = [bandwidthLimitRequested False, timerStart 30000,
                       speedProfileRequested ''Normal'']\<rparr>"
  by (simp add: getCurrentSpeedProfile_def start_def onTimeout_def isTimeForAlternative_eq
      BandwidthScheduler_new_def recognizedDays_def QTime_hms_def Let_def)

text \<open>
  C6, as amended.  Whenever the legacy evaluator gives a value, each signal is emitted
  exactly when its new value differs from the content of its own cell, the legacy
  signal first; afterwards each cell holds the new value of its signal.  A cell that held
  the last value emitted on its signal holds it again after the tick, and the cell of
  a signal that the tick emits holds it from then on.  Any run of further ticks that
  evaluate to the same two values leaves the object as it is: it emits nothing.
\<close>

theorem onTimeout_change_events:
  assumes "isTimeForAlternative pref clkA = Inr alternative"
  shows "\<exists>s'. onTimeout pref clkA clkP s = Inr s'
     \<and> effects s' = effects s
         @ (if alternative \<noteq> m_lastAlternative s then [bandwidthLimitRequested alternative] else [])
         @ (if getCurrentSpeedProfile pref clkP \<noteq> m_lastActiveProfile s
            then [speedProfileRequested (getCurrentSpeedProfile pref clkP)] else [])
     \<and> m_lastAlternative s' = alternative
     \<and> m_lastActiveProfile s' = getCurrentSpeedProfile pref clkP
     \<and> (lastBandwidthLimitRequested (effects s) = Some (m_lastAlternative s)
          \<or> alternative \<noteq> m_lastAlternative s
        \<longrightarrow> lastBandwidthLimitRequested (effects s') = Some (m_lastAlternative s'))
     \<and> (lastSpeedProfileRequested (effects s) = Some (m_lastActiveProfile s)
          \<or> getCurrentSpeedProfile pref clkP \<noteq> m_lastActiveProfile s
        \<longrightarrow> lastSpeedProfileRequested (effects s') = Some (m_lastActiveProfile s'))
     \<and> (\<forall>ticks.
          (\<forall>(pref', clkA', clkP')\<in>set ticks.
              isTimeForAlternative pref' clkA' = Inr alternative
              \<and> getCurrentSpeedProfile pref' clkP' = getCurrentSpeedProfile pref clkP)
          \<longrightarrow> onTimeouts ticks s' = Inr s')"
proof -
  define s1 where "s1 =
    (if alternative \<noteq> m_lastAlternative s
     then s\<lparr>m_lastAlternative := alternative,
            effects := effects s @ [bandwidthLimitRequested alternative]\<rparr>
     else s)"
  define P where "P = getCurrentSpeedProfile pref clkP"
  define s2 where "s2 =
    (if P \<noteq> m_lastActiveProfile s1
     then s1\<lparr>m_lastActiveProfile := P, effects := effects s1 @ [speedProfileRequested P]\<rparr>
     else s1)"
  have run: "onTimeout pref clkA clkP s = Inr s2"
    using assms by (simp add: onTimeout_def s1_def s2_def P_def Let_def)
  have eff: "effects s2 = effects s
         @ (if alternative \<noteq> m_lastAlternative s then [bandwidthLimitRequested alternative] else [])
         @ (if P \<noteq> m_lastActiveProfile s then [speedProfileRequested P] else [])"
    by (simp add: s1_def s2_def)
  have cellA: "m_lastAlternative s2 = alternative"
    by (simp add: s1_def s2_def)
  have cellP: "m_lastActiveProfile s2 = P"
    by (simp add: s1_def s2_def)
  have lastA: "lastBandwidthLimitRequested (effects s) = Some (m_lastAlternative s)
          \<or> alternative \<noteq> m_lastAlternative s
        \<longrightarrow> lastBandwidthLimitRequested (effects s2) = Some (m_lastAlternative s2)"
    unfolding cellA eff
    by (auto simp: lastBandwidthLimitRequested_append)
  have lastP: "lastSpeedProfileRequested (effects s) = Some (m_lastActiveProfile s)
          \<or> P \<noteq> m_lastActiveProfile s
        \<longrightarrow> lastSpeedProfileRequested (effects s2) = Some (m_lastActiveProfile s2)"
    unfolding cellP eff
    by (auto simp: lastSpeedProfileRequested_append)
  have again: "\<forall>ticks.
          (\<forall>(pref', clkA', clkP')\<in>set ticks.
              isTimeForAlternative pref' clkA' = Inr alternative
              \<and> getCurrentSpeedProfile pref' clkP' = P)
          \<longrightarrow> onTimeouts ticks s2 = Inr s2"
    using onTimeouts_same [of _ s2] unfolding cellA cellP by blast
  show ?thesis
    using run eff cellA cellP lastA lastP again unfolding P_def by blast
qed

text \<open>
  The first tick after a start at 20:00, which emits the name Normal, and two further
  ticks, the second of them half a minute later: they emit nothing.
\<close>

theorem onTimeout_change_events_witness:
  "isTimeForAlternative
     \<lparr>getSchedulerStartTime = QTime_hms 8 0 0 0, getSchedulerEndTime = QTime_hms 18 0 0 0,
      getSchedulerDays = EveryDay, getScheduleEntries = [],
      getDefaultSpeedProfile = ''Normal''\<rparr>
     \<lparr>currentTime = QTime_hms 20 0 0 0, dayOfWeek = 2\<rparr> = Inr False
   \<and> onTimeout
       \<lparr>getSchedulerStartTime = QTime_hms 8 0 0 0, getSchedulerEndTime = QTime_hms 18 0 0 0,
        getSchedulerDays = EveryDay, getScheduleEntries = [],
        getDefaultSpeedProfile = ''Normal''\<rparr>
       \<lparr>currentTime = QTime_hms 20 0 0 0, dayOfWeek = 2\<rparr>
       \<lparr>currentTime = QTime_hms 20 0 0 0, dayOfWeek = 2\<rparr>
       \<lparr>m_lastAlternative = False, m_lastActiveProfile = [],
        effects = [bandwidthLimitRequested False, timerStart 30000]\<rparr>
     = Inr \<lparr>m_lastAlternative = False, m_lastActiveProfile = ''Normal'',
            effects = [bandwidthLimitRequested False, timerStart 30000,
                       speedProfileRequested ''Normal'']\<rparr>
   \<and> onTimeouts
       [(\<lparr>getSchedulerStartTime = QTime_hms 8 0 0 0, getSchedulerEndTime = QTime_hms 18 0 0 0,
          getSchedulerDays = EveryDay, getScheduleEntries = [],
          getDefaultSpeedProfile = ''Normal''\<rparr>,
         \<lparr>currentTime = QTime_hms 20 0 0 0, dayOfWeek = 2\<rparr>,
         \<lparr>currentTime = QTime_hms 20 0 0 0, dayOfWeek = 2\<rparr>),
        (\<lparr>getSchedulerStartTime = QTime_hms 8 0 0 0, getSchedulerEndTime = QTime_hms 18 0 0 0,
          getSchedulerDays = EveryDay, getScheduleEntries = [],
          getDefaultSpeedProfile = ''Normal''\<rparr>,
         \<lparr>currentTime = QTime_hms 20 0 30 0, dayOfWeek = 2\<rparr>,
         \<lparr>currentTime = QTime_hms 20 0 30 0, dayOfWeek = 2\<rparr>)]
       \<lparr>m_lastAlternative = False, m_lastActiveProfile = ''Normal'',
        effects = [bandwidthLimitRequested False, timerStart 30000,
                   speedProfileRequested ''Normal'']\<rparr>
     = Inr \<lparr>m_lastAlternative = False, m_lastActiveProfile = ''Normal'',
            effects = [bandwidthLimitRequested False, timerStart 30000,
                       speedProfileRequested ''Normal'']\<rparr>"
proof -
  let ?pref = "\<lparr>getSchedulerStartTime = QTime_hms 8 0 0 0, getSchedulerEndTime = QTime_hms 18 0 0 0,
      getSchedulerDays = EveryDay, getScheduleEntries = [],
      getDefaultSpeedProfile = ''Normal''\<rparr>"
  let ?clk = "\<lparr>currentTime = QTime_hms 20 0 0 0, dayOfWeek = 2\<rparr>"
  let ?clk' = "\<lparr>currentTime = QTime_hms 20 0 30 0, dayOfWeek = 2\<rparr>"
  let ?s1 = "\<lparr>m_lastAlternative = False, m_lastActiveProfile = [],
        effects = [bandwidthLimitRequested False, timerStart 30000]\<rparr>"
  let ?s2 = "\<lparr>m_lastAlternative = False, m_lastActiveProfile = ''Normal'',
            effects = [bandwidthLimitRequested False, timerStart 30000,
                       speedProfileRequested ''Normal'']\<rparr>"
  have a: "isTimeForAlternative ?pref ?clk = Inr False"
    by (simp add: isTimeForAlternative_eq recognizedDays_def QTime_hms_def)
  have a': "isTimeForAlternative ?pref ?clk' = Inr False"
    by (simp add: isTimeForAlternative_eq recognizedDays_def QTime_hms_def)
  have p: "getCurrentSpeedProfile ?pref ?clk = ''Normal''"
    and p': "getCurrentSpeedProfile ?pref ?clk' = ''Normal''"
    by (simp_all add: getCurrentSpeedProfile_def)
  from onTimeout_change_events [OF a, of ?clk ?s1] obtain s' where
    run: "onTimeout ?pref ?clk ?clk ?s1 = Inr s'"
    and eff: "effects s' = effects ?s1
         @ (if False \<noteq> m_lastAlternative ?s1 then [bandwidthLimitRequested False] else [])
         @ (if getCurrentSpeedProfile ?pref ?clk \<noteq> m_lastActiveProfile ?s1
            then [speedProfileRequested (getCurrentSpeedProfile ?pref ?clk)] else [])"
    and cells: "m_lastAlternative s' = False"
      "m_lastActiveProfile s' = getCurrentSpeedProfile ?pref ?clk"
    and again: "\<forall>ticks.
          (\<forall>(pref', clkA', clkP')\<in>set ticks.
              isTimeForAlternative pref' clkA' = Inr False
              \<and> getCurrentSpeedProfile pref' clkP' = getCurrentSpeedProfile ?pref ?clk)
          \<longrightarrow> onTimeouts ticks s' = Inr s'"
    by blast
  have s': "s' = ?s2"
    using eff cells by (cases s') (simp add: p)
  have "onTimeouts [(?pref, ?clk, ?clk), (?pref, ?clk', ?clk')] s' = Inr s'"
    using again a a' p p' by (simp del: onTimeouts.simps)
  then show ?thesis
    using a run unfolding s' by simp
qed

section \<open>JSON serialization\<close>

lemma toInt_sint:
  "QJsonValue_toInt (JInteger (sint (x :: cint))) d = x"
proof -
  have "- (2 ^ 31) \<le> sint x" and "sint x < 2 ^ 31"
    using sint_ge [of x] sint_lt [of x] by simp_all
  then show ?thesis
    by simp
qed

lemma digitValue_digitChar:
  "0 \<le> d \<Longrightarrow> d \<le> 9 \<Longrightarrow> digitValue (digitChar d) = Some d"
  by (simp add: digitValue_def digitChar_def of_char_of)

lemma fromString_twoDigits:
  assumes "0 \<le> h" "h < 100" "0 \<le> m" "m < 100"
  shows "QTime_fromString_HHmm (twoDigits h @ '':'' @ twoDigits m) = QTime_hms h m 0 0"
proof -
  have "digitValue (digitChar (h div 10)) = Some (h div 10)"
    and "digitValue (digitChar (h mod 10)) = Some (h mod 10)"
    and "digitValue (digitChar (m div 10)) = Some (m div 10)"
    and "digitValue (digitChar (m mod 10)) = Some (m mod 10)"
    using assms by (simp_all add: digitValue_digitChar)
  then show ?thesis
    by (simp add: twoDigits_def)
qed

lemma minute_grid:
  fixes t :: int
  assumes sec: "(t div 1000) mod 60 = 0" and ms: "t mod 1000 = 0"
  shows "t = (t div 3600000 * 3600 + (t mod 3600000) div 60000 * 60 + 0) * 1000 + 0"
proof -
  have a: "t = 1000 * (t div 1000)"
    using ms mult_div_mod_eq [of 1000 t] by simp
  have b: "t div 1000 = 60 * (t div 1000 div 60)"
    using sec mult_div_mod_eq [of 60 "t div 1000"] by simp
  have "t = 60000 * (t div 1000 div 60)"
    using a b by linarith
  then have "60000 dvd t"
    by (metis dvd_triv_left)
  then have "t mod 60000 = 0"
    by simp
  moreover have "t mod 3600000 mod 60000 = t mod 60000"
    by (simp add: mod_mod_cancel)
  ultimately have c: "t mod 3600000 = 60000 * (t mod 3600000 div 60000)"
    using mult_div_mod_eq [of 60000 "t mod 3600000"] by simp
  define q where "q = t div 3600000"
  define r where "r = t mod 3600000 div 60000"
  have "t = 3600000 * q + t mod 3600000"
    by (simp add: q_def)
  with c have "t = 3600000 * q + 60000 * r"
    by (simp add: r_def)
  then have "t = (q * 3600 + r * 60 + 0) * 1000 + 0"
    by (simp add: algebra_simps)
  then show ?thesis
    by (simp only: q_def r_def)
qed

lemma fromString_toString:
  assumes "QTime_isValid t" and "QTime_second t = 0" and "QTime_msec t = 0"
  shows "QTime_fromString_HHmm (QTime_toString_HHmm t) = t"
proof -
  from assms have range: "0 \<le> t" "t < 86400000"
    and sec: "(t div 1000) mod 60 = 0" and ms: "t mod 1000 = 0"
    by (simp_all add: QTime_isValid_def MSECS_PER_DAY_def QTime_second_def QTime_msec_def)
  define h where "h = t div 3600000"
  define m where "m = (t mod 3600000) div 60000"
  have h: "0 \<le> h" "h < 24" and m: "0 \<le> m" "m < 60"
    using range by (simp_all add: h_def m_def)
  have t: "t = (h * 3600 + m * 60 + 0) * 1000 + 0"
    unfolding h_def m_def by (rule minute_grid [OF sec ms])
  have "QTime_toString_HHmm t = twoDigits h @ '':'' @ twoDigits m"
    using assms(1) by (simp add: QTime_toString_HHmm_def QTime_hour_def QTime_minute_def h_def m_def)
  then have "QTime_fromString_HHmm (QTime_toString_HHmm t) = QTime_hms h m 0 0"
    using h m by (simp only: fromString_twoDigits)
  also have "\<dots> = t"
    using h m t by (simp add: QTime_hms_def)
  finally show ?thesis .
qed

text \<open>
  C10.  Reading back what was written gives an equal value (in the sense of the structs'
  \<open>operator==\<close>): for every speed profile, and for every schedule entry whose two times
  are valid and have neither seconds nor milliseconds.
\<close>

theorem json_round_trip:
  "SpeedProfile_eq (SpeedProfile_fromJsonObject (SpeedProfile_toJsonObject p)) p
   \<and> (QTime_isValid (startTime e) \<and> QTime_second (startTime e) = 0 \<and> QTime_msec (startTime e) = 0
      \<and> QTime_isValid (endTime e) \<and> QTime_second (endTime e) = 0 \<and> QTime_msec (endTime e) = 0
      \<longrightarrow> ScheduleEntry_eq (ScheduleEntry_fromJsonObject (ScheduleEntry_toJsonObject e)) e)"
  by (simp add: SpeedProfile_eq_def SpeedProfile_fromJsonObject_def SpeedProfile_toJsonObject_def
      ScheduleEntry_eq_def ScheduleEntry_fromJsonObject_def ScheduleEntry_toJsonObject_def
      QJsonObject_value_def toInt_sint fromString_toString del: QJsonValue_toInt.simps)

text \<open>
  A profile with an unlimited download, and the entry 23:05 to 01:00 on Sundays with
  the text of its two times.
\<close>

theorem json_round_trip_witness:
  "SpeedProfile_fromJsonObject
     (SpeedProfile_toJsonObject \<lparr>name = ''Night'', downloadLimit = -1, uploadLimit = 51200\<rparr>)
     = \<lparr>name = ''Night'', downloadLimit = -1, uploadLimit = 51200\<rparr>
   \<and> QTime_isValid (QTime_hms 23 5 0 0) \<and> QTime_second (QTime_hms 23 5 0 0) = 0
   \<and> QTime_msec (QTime_hms 23 5 0 0) = 0
   \<and> QTime_isValid (QTime_hms 1 0 0 0) \<and> QTime_second (QTime_hms 1 0 0 0) = 0
   \<and> QTime_msec (QTime_hms 1 0 0 0) = 0
   \<and> QTime_toString_HHmm (QTime_hms 23 5 0 0) = ''23:05''
   \<and> QTime_toString_HHmm (QTime_hms 1 0 0 0) = ''01:00''
   \<and> ScheduleEntry_fromJsonObject
       (ScheduleEntry_toJsonObject
          \<lparr>startTime = QTime_hms 23 5 0 0, endTime = QTime_hms 1 0 0 0, days = Sunday,
           profileName = ''Night''\<rparr>)
     = \<lparr>startTime = QTime_hms 23 5 0 0, endTime = QTime_hms 1 0 0 0, days = Sunday,
        profileName = ''Night''\<rparr>"
proof -
  let ?p = "\<lparr>name = ''Night'', downloadLimit = -1, uploadLimit = 51200\<rparr> :: SpeedProfile"
  let ?e = "\<lparr>startTime = QTime_hms 23 5 0 0, endTime = QTime_hms 1 0 0 0, days = Sunday,
           profileName = ''Night''\<rparr>"
  have v: "QTime_isValid (QTime_hms 23 5 0 0)" "QTime_second (QTime_hms 23 5 0 0) = 0"
    "QTime_msec (QTime_hms 23 5 0 0) = 0"
    "QTime_isValid (QTime_hms 1 0 0 0)" "QTime_second (QTime_hms 1 0 0 0) = 0"
    "QTime_msec (QTime_hms 1 0 0 0) = 0"
    by (simp_all add: QTime_hms_def QTime_isValid_def MSECS_PER_DAY_def QTime_second_def
        QTime_msec_def)
  have s: "QTime_toString_HHmm (QTime_hms 23 5 0 0) = ''23:05''"
    "QTime_toString_HHmm (QTime_hms 1 0 0 0) = ''01:00''"
    by (simp_all add: QTime_toString_HHmm_def QTime_hms_def QTime_isValid_def MSECS_PER_DAY_def
        QTime_hour_def QTime_minute_def twoDigits_def digitChar_def char_of_def)
  have "SpeedProfile_eq (SpeedProfile_fromJsonObject (SpeedProfile_toJsonObject ?p)) ?p"
    using json_round_trip [of ?p ?e] by (rule conjunct1)
  then have p: "SpeedProfile_fromJsonObject (SpeedProfile_toJsonObject ?p) = ?p"
    unfolding SpeedProfile_eq_def by (intro SpeedProfile.equality) simp_all
  have "QTime_isValid (startTime ?e) \<and> QTime_second (startTime ?e) = 0
      \<and> QTime_msec (startTime ?e) = 0
      \<and> QTime_isValid (endTime ?e) \<and> QTime_second (endTime ?e) = 0
      \<and> QTime_msec (endTime ?e) = 0"
    using v by simp
  with json_round_trip [of ?p ?e]
  have "ScheduleEntry_eq (ScheduleEntry_fromJsonObject (ScheduleEntry_toJsonObject ?e)) ?e"
    by blast
  then have e: "ScheduleEntry_fromJsonObject (ScheduleEntry_toJsonObject ?e) = ?e"
    unfolding ScheduleEntry_eq_def by (intro ScheduleEntry.equality) simp_all
  from p v s e show ?thesis
    by (intro conjI)
qed

end
